theory Spec2Isabelle
  imports Main "HOL-Library.Word" "HOL-Library.Sublist" "HOL-Library.Multiset"
begin

section \<open>The MySQL target manager: \<open>MySQLTargetManager.Acquire\<close>\<close>

text \<open>
  The development embeds \<open>Acquire\<close> of the package \<open>mysqltargetmanager\<close>: the loop
  that turns the rows of the table \<open>targetmanager\<close> into targets, the host prefix filter,
  the optional shuffle, the call of the locker's \<open>TryLock\<close>, and the reconciliation of
  what was locked against \<open>MinNumberDevices\<close>.

  What \<open>Acquire\<close> reads from outside is an argument of the model: the result set of
  the query, the function that parses an address, the draws of the random generator and
  the locker. Logging is left out: it changes nothing that \<open>Acquire\<close> returns.
\<close>

subsection \<open>Addresses: \<open>net.IP\<close>\<close>

text \<open>
  Go's \<open>net.IP\<close> is a byte slice; a \<open>nil\<close> one is \<open>None\<close>. \<open>To4\<close> and \<open>To16\<close> are the
  methods of the Go standard library that \<open>Acquire\<close> calls on a parsed address.
\<close>

type_synonym byte = "8 word"
type_synonym IP = "byte list"

definition IPv4len :: nat where
  "IPv4len = 4"

definition IPv6len :: nat where
  "IPv6len = 16"

definition v4InV6Prefix :: "byte list" where
  "v4InV6Prefix = [0, 0, 0, 0, 0, 0, 0, 0, 0, 0, 0xff, 0xff]"

definition IPv4 :: "byte \<Rightarrow> byte \<Rightarrow> byte \<Rightarrow> byte \<Rightarrow> IP" where
  "IPv4 a b c d = v4InV6Prefix @ [a, b, c, d]"

definition isZeros :: "byte list \<Rightarrow> bool" where
  "isZeros p = list_all (\<lambda>b. b = 0) p"

definition To4 :: "IP \<Rightarrow> IP option" where
  "To4 ip =
     (if length ip = IPv4len then Some ip
      else if length ip = IPv6len \<and> isZeros (take 10 ip) \<and> ip ! 10 = 0xff \<and> ip ! 11 = 0xff
        then Some (drop 12 ip)
      else None)"

definition To16 :: "IP \<Rightarrow> IP option" where
  "To16 ip =
     (if length ip = IPv4len then Some (IPv4 (ip ! 0) (ip ! 1) (ip ! 2) (ip ! 3))
      else if length ip = IPv6len then Some ip
      else None)"

subsection \<open>\<open>net.ParseIP\<close>\<close>

text \<open>
  \<open>net.ParseIP\<close> belongs to the Go standard library, not to this repository. The loop of
  \<open>Acquire\<close> takes the parser as an argument, so that what is proved of the loop holds
  for every parser. \<open>net_ParseIP\<close> below follows the library's text (\<open>dtoi\<close>, \<open>xtoi\<close>,
  \<open>parseIPv4\<close>, \<open>parseIPv6\<close>, \<open>ParseIP\<close> of \<open>net/ip.go\<close> and \<open>net/parse.go\<close>) and is the
  parser of every concrete run in this file. It is the text of the library before
  Go 1.17, which began to reject a dotted octet with a leading zero; no run in this file
  parses such an octet.
\<close>

definition big :: nat where
  "big = 0xFFFFFF"

definition is_digit :: "char \<Rightarrow> bool" where
  "is_digit c = (48 \<le> (of_char c :: nat) \<and> (of_char c :: nat) \<le> 57)"

definition is_lower_hex :: "char \<Rightarrow> bool" where
  "is_lower_hex c = (97 \<le> (of_char c :: nat) \<and> (of_char c :: nat) \<le> 102)"

definition is_upper_hex :: "char \<Rightarrow> bool" where
  "is_upper_hex c = (65 \<le> (of_char c :: nat) \<and> (of_char c :: nat) \<le> 70)"

text \<open>
  \<open>dtoi s\<close>: the decimal number at the start of \<open>s\<close>, the count of characters read, and
  whether a number was read without reaching \<open>big\<close>. The arguments of the loop are the
  rest of the string, \<open>n\<close> and \<open>i\<close>.
\<close>

fun dtoi_loop :: "string \<Rightarrow> nat \<Rightarrow> nat \<Rightarrow> nat \<times> nat \<times> bool" where
  "dtoi_loop [] n i = (if i = 0 then (0, 0, False) else (n, i, True))"
| "dtoi_loop (c # cs) n i =
     (if is_digit c then
        (let n' = n * 10 + ((of_char c :: nat) - 48) in
         if n' \<ge> big then (big, i, False) else dtoi_loop cs n' (Suc i))
      else if i = 0 then (0, 0, False) else (n, i, True))"

definition dtoi :: "string \<Rightarrow> nat \<times> nat \<times> bool" where
  "dtoi s = dtoi_loop s 0 0"

fun xtoi_loop :: "string \<Rightarrow> nat \<Rightarrow> nat \<Rightarrow> nat \<times> nat \<times> bool" where
  "xtoi_loop [] n i = (if i = 0 then (0, i, False) else (n, i, True))"
| "xtoi_loop (c # cs) n i =
     (if is_digit c \<or> is_lower_hex c \<or> is_upper_hex c then
        (let n' = (if is_digit c then n * 16 + ((of_char c :: nat) - 48)
                   else if is_lower_hex c then n * 16 + ((of_char c :: nat) - 97) + 10
                   else n * 16 + ((of_char c :: nat) - 65) + 10) in
         if n' \<ge> big then (0, i, False) else xtoi_loop cs n' (Suc i))
      else if i = 0 then (0, i, False) else (n, i, True))"

definition xtoi :: "string \<Rightarrow> nat \<times> nat \<times> bool" where
  "xtoi s = xtoi_loop s 0 0"

text \<open>
  \<open>parseIPv4\<close>: four decimal octets separated by dots and nothing after them. The loop
  runs \<open>i\<close> from 0 to 3 over the rest \<open>s\<close> of the string and fills the array \<open>p\<close>.
\<close>

function parseIPv4_loop :: "nat \<Rightarrow> string \<Rightarrow> byte list \<Rightarrow> IP option" where
  "parseIPv4_loop i s p =
     (if i < IPv4len then
        (if s = [] then None
         else if i > 0 \<and> hd s \<noteq> CHR ''.'' then None
         else
           (let s1 = (if i > 0 then tl s else s) in
            case dtoi s1 of (n, c, ok) \<Rightarrow>
              if \<not> ok \<or> n > 0xFF then None
              else parseIPv4_loop (Suc i) (drop c s1) (p[i := of_nat n])))
      else if s \<noteq> [] then None
      else Some (IPv4 (p ! 0) (p ! 1) (p ! 2) (p ! 3)))"
  by pat_completeness auto
termination
  by (relation "measure (\<lambda>(i, s, p). IPv4len - i)") auto

definition parseIPv4 :: "string \<Rightarrow> IP option" where
  "parseIPv4 s = parseIPv4_loop 0 s [0, 0, 0, 0]"

text \<open>
  \<open>parseIPv6\<close>: groups of hexadecimal digits separated by colons, at most one \<open>::\<close>
  (the ellipsis, whose position in \<open>ip\<close> is kept), and possibly a dotted IPv4 address in
  the last four bytes. The loop returns \<open>None\<close> where the library returns \<open>nil\<close>, and
  otherwise the state at the \<open>break\<close> or at the end of the loop: \<open>ip\<close>, the ellipsis,
  \<open>i\<close> and the rest of the string.
\<close>

function parseIPv6_loop ::
  "nat \<Rightarrow> string \<Rightarrow> byte list \<Rightarrow> nat option \<Rightarrow> (byte list \<times> nat option \<times> nat \<times> string) option" where
  "parseIPv6_loop i s ip ellipsis =
     (if i < IPv6len then
        (case xtoi s of (n, c, ok) \<Rightarrow>
           if \<not> ok \<or> n > 0xFFFF then None
           else if c < length s \<and> s ! c = CHR ''.'' then
             (if ellipsis = None \<and> i \<noteq> IPv6len - IPv4len then None
              else if i + IPv4len > IPv6len then None
              else
                (case parseIPv4 s of
                   None \<Rightarrow> None
                 | Some ip4 \<Rightarrow>
                     Some (ip[i := ip4 ! 12, i + 1 := ip4 ! 13, i + 2 := ip4 ! 14, i + 3 := ip4 ! 15],
                           ellipsis, i + IPv4len, [])))
           else
             (let ip1 = ip[i := of_nat (n div 256), i + 1 := of_nat n];
                  i1 = i + 2;
                  s1 = drop c s in
              if s1 = [] then Some (ip1, ellipsis, i1, s1)
              else if hd s1 \<noteq> CHR '':'' \<or> length s1 = 1 then None
              else
                (let s2 = tl s1 in
                 if hd s2 = CHR '':'' then
                   (if ellipsis \<noteq> None then None
                    else if tl s2 = [] then Some (ip1, Some i1, i1, [])
                    else parseIPv6_loop i1 (tl s2) ip1 (Some i1))
                 else parseIPv6_loop i1 s2 ip1 ellipsis)))
      else Some (ip, ellipsis, i, s))"
  by pat_completeness auto
termination
  by (relation "measure (\<lambda>(i, s, ip, e). IPv6len - i)") (auto simp: IPv6len_def)

text \<open>
  Expanding the ellipsis: the \<open>i - ellipsis\<close> bytes written after it move to the end of
  the address, and the \<open>n = IPv6len - i\<close> bytes from the ellipsis on become zero.
\<close>

definition expand_ellipsis :: "byte list \<Rightarrow> nat \<Rightarrow> nat \<Rightarrow> byte list" where
  "expand_ellipsis ip e i =
     take e ip @ replicate (IPv6len - i) 0 @ take (i - e) (drop e ip)"

definition parseIPv6 :: "string \<Rightarrow> IP option" where
  "parseIPv6 s0 =
     (let ip0 = replicate IPv6len (0 :: byte);
          lead = (length s0 \<ge> 2 \<and> s0 ! 0 = CHR '':'' \<and> s0 ! 1 = CHR '':'');
          ellipsis0 = (if lead then Some 0 else None);
          s = (if lead then drop 2 s0 else s0) in
      if lead \<and> s = [] then Some ip0
      else
        (case parseIPv6_loop 0 s ip0 ellipsis0 of
           None \<Rightarrow> None
         | Some (ip, ellipsis, i, rest) \<Rightarrow>
             if rest \<noteq> [] then None
             else if i < IPv6len then
               (case ellipsis of
                  None \<Rightarrow> None
                | Some e \<Rightarrow> Some (expand_ellipsis ip e i))
             else if ellipsis \<noteq> None then None
             else Some ip))"

text \<open>\<open>ParseIP\<close>: the first dot or colon of the string decides the family.\<close>

fun net_ParseIP_scan :: "string \<Rightarrow> string \<Rightarrow> IP option" where
  "net_ParseIP_scan s [] = None"
| "net_ParseIP_scan s (c # cs) =
     (if c = CHR ''.'' then parseIPv4 s
      else if c = CHR '':'' then parseIPv6 s
      else net_ParseIP_scan s cs)"

definition net_ParseIP :: "string \<Rightarrow> IP option" where
  "net_ParseIP s = net_ParseIP_scan s s"

subsection \<open>Targets, rows and parameters\<close>

text \<open>
  \<open>target.Target\<close> with the four fields \<open>Acquire\<close> writes. The list \<open>hosts\<close> holds
  pointers: each row that reaches \<open>var t target.Target\<close> allocates a fresh target, and
  \<open>&t\<close> is appended once for every match. A pointer is modelled by the number of the
  allocation together with the target it points to, which is not written again once the
  pointer has been appended.
\<close>

record Target =
  ID :: string
  FQDN :: string
  PrimaryIPv4 :: "IP option"
  PrimaryIPv6 :: "IP option"

datatype TargetPtr = Ptr (addr: nat) (deref: Target)

record mysqltable =
  row_ID :: "16 word"
  hostid :: string
  row_FQDN :: string
  row_IPv4 :: string
  row_IPv6 :: string

record AcquireParameters =
  MinNumberDevices :: "32 word"
  MaxNumberDevices :: "32 word"
  HostPrefixes :: "string list"
  Shuffle :: bool

text \<open>
  The argument \<open>parameters\<close> has the type \<open>interface{}\<close>: it holds an
  \<open>AcquireParameters\<close> or a value of some other type.
\<close>

datatype parameters = AcquireParams AcquireParameters | OtherParams

text \<open>
  What the database gives: \<open>sql.Open\<close> or \<open>db.Query\<close> may fail, and otherwise the
  result set is a sequence of rows, each of which \<open>table.Scan\<close> reads or fails to read.
\<close>

datatype scan = ScanError | Scanned mysqltable

datatype database = OpenFailed | QueryFailed | Table "scan list"

type_synonym JobID = "64 word"
type_synonym Duration = "64 word"

text \<open>The errors \<open>Acquire\<close> returns, one constructor for each \<open>return nil, ...\<close>.\<close>

datatype acquire_error =
    WrongParameterType
  | ScanFailed
  | EmptyHostID
  | InvalidIPv4 string
  | InvalidIPv6 string
  | NotEnoughHosts "32 word" nat
  | LockFailed string
  | LockedNotInHosts
  | CantUnlock
  | CantLockEnough

subsection \<open>The loop over the rows\<close>

text \<open>
  Lines 132 to 151: the target of a row whose \<open>hostid\<close> is not empty. A non-empty
  address must parse, and \<open>To4\<close> (for the IPv4 column) or \<open>To16\<close> (for the IPv6 column)
  of the parsed address must not be \<open>nil\<close>.
\<close>

definition build_target :: "(string \<Rightarrow> IP option) \<Rightarrow> mysqltable \<Rightarrow> acquire_error + Target" where
  "build_target parseIP data =
     (let t0 = \<lparr>ID = hostid data, FQDN = [], PrimaryIPv4 = None, PrimaryIPv6 = None\<rparr>;
          t1 = (if row_FQDN data \<noteq> [] then t0\<lparr>FQDN := row_FQDN data\<rparr> else t0) in
      case (if row_IPv4 data \<noteq> [] then
              (case parseIP (row_IPv4 data) of
                 None \<Rightarrow> Inl (InvalidIPv4 (row_IPv4 data))
               | Some ip \<Rightarrow>
                   if To4 ip = None then Inl (InvalidIPv4 (row_IPv4 data))
                   else Inr (t1\<lparr>PrimaryIPv4 := Some ip\<rparr>))
            else Inr t1) of
        Inl e \<Rightarrow> Inl e
      | Inr t2 \<Rightarrow>
          (if row_IPv6 data \<noteq> [] then
             (case parseIP (row_IPv6 data) of
                None \<Rightarrow> Inl (InvalidIPv6 (row_IPv6 data))
              | Some ip \<Rightarrow>
                  if To16 ip = None then Inl (InvalidIPv6 (row_IPv6 data))
                  else Inr (t2\<lparr>PrimaryIPv6 := Some ip\<rparr>))
           else Inr t2))"

text \<open>\<open>strings.Split(t.FQDN, ".")[0]\<close>: the name up to its first dot.\<close>

definition firstComponent :: "string \<Rightarrow> string" where
  "firstComponent fqdn = takeWhile (\<lambda>c. c \<noteq> CHR ''.'') fqdn"

text \<open>Lines 157 to 161: one \<open>append\<close> for every host prefix the first component starts with.\<close>

fun append_matches :: "string \<Rightarrow> TargetPtr \<Rightarrow> string list \<Rightarrow> TargetPtr list \<Rightarrow> TargetPtr list" where
  "append_matches fc p [] hosts = hosts"
| "append_matches fc p (hp # hps) hosts =
     append_matches fc p hps (if prefix hp fc then hosts @ [p] else hosts)"

text \<open>Lines 152 to 162.\<close>

definition add_host :: "string list \<Rightarrow> TargetPtr \<Rightarrow> TargetPtr list \<Rightarrow> TargetPtr list" where
  "add_host hps p hosts =
     (if length hps = 0 then hosts @ [p]
      else if FQDN (deref p) \<noteq> [] then
        append_matches (firstComponent (FQDN (deref p))) p hps hosts
      else hosts)"

text \<open>
  One turn of the loop, lines 122 to 162. The state of the loop is the number of targets
  allocated so far and the list \<open>hosts\<close>.
\<close>

definition all_empty :: "mysqltable \<Rightarrow> bool" where
  "all_empty data \<longleftrightarrow>
     hostid data = [] \<and> row_FQDN data = [] \<and> row_IPv4 data = [] \<and> row_IPv6 data = []"

definition row_step ::
  "(string \<Rightarrow> IP option) \<Rightarrow> string list \<Rightarrow> nat \<times> TargetPtr list \<Rightarrow> scan
     \<Rightarrow> acquire_error + nat \<times> TargetPtr list" where
  "row_step parseIP hps st sc =
     (case sc of
        ScanError \<Rightarrow> Inl ScanFailed
      | Scanned data \<Rightarrow>
          if all_empty data then Inr st
          else if hostid data = [] then Inl EmptyHostID
          else
            (case build_target parseIP data of
               Inl e \<Rightarrow> Inl e
             | Inr t \<Rightarrow> Inr (Suc (fst st), add_host hps (Ptr (fst st) t) (snd st))))"

fun scan_rows ::
  "(string \<Rightarrow> IP option) \<Rightarrow> string list \<Rightarrow> nat \<times> TargetPtr list \<Rightarrow> scan list
     \<Rightarrow> acquire_error + nat \<times> TargetPtr list" where
  "scan_rows parseIP hps st [] = Inr st"
| "scan_rows parseIP hps st (sc # rest) =
     (case row_step parseIP hps st sc of
        Inl e \<Rightarrow> Inl e
      | Inr st' \<Rightarrow> scan_rows parseIP hps st' rest)"

text \<open>The loop from its start: no target allocated, \<open>hosts\<close> empty.\<close>

definition load_hosts ::
  "(string \<Rightarrow> IP option) \<Rightarrow> string list \<Rightarrow> scan list \<Rightarrow> acquire_error + TargetPtr list" where
  "load_hosts parseIP hps rows =
     (case scan_rows parseIP hps (0, []) rows of
        Inl e \<Rightarrow> Inl e
      | Inr st \<Rightarrow> Inr (snd st))"

subsection \<open>\<open>rand.Shuffle\<close>\<close>

text \<open>
  \<open>rand.Shuffle(n, swap)\<close> runs \<open>i\<close> from \<open>n - 1\<close> down to 1, draws \<open>j\<close> in \<open>[0, i]\<close> and
  calls \<open>swap(i, j)\<close>, which here exchanges \<open>hosts[i]\<close> and \<open>hosts[j]\<close>. The generator is an
  argument: \<open>draws k\<close> is the raw value of the \<open>k\<close>-th draw, reduced to \<open>[0, i]\<close>.
\<close>

definition swap :: "nat \<Rightarrow> nat \<Rightarrow> 'a list \<Rightarrow> 'a list" where
  "swap i j xs = xs[i := xs ! j, j := xs ! i]"

fun Shuffle_loop :: "(nat \<Rightarrow> nat) \<Rightarrow> nat \<Rightarrow> nat \<Rightarrow> 'a list \<Rightarrow> 'a list" where
  "Shuffle_loop draws k 0 xs = xs"
| "Shuffle_loop draws k (Suc i) xs =
     Shuffle_loop draws (Suc k) i (swap (Suc i) (draws k mod (Suc (Suc i))) xs)"

definition rand_Shuffle :: "(nat \<Rightarrow> nat) \<Rightarrow> 'a list \<Rightarrow> 'a list" where
  "rand_Shuffle draws xs =
     (if length xs = 0 then xs else Shuffle_loop draws 0 (length xs - 1) xs)"

subsection \<open>The locker and \<open>target.FilterTargets\<close>\<close>

text \<open>
  \<open>target.Locker\<close> is an interface. A locker is a pair of functions over a state of its
  own; an error of the locker is its message. \<open>TryLock\<close> returns the identifiers it
  locked together with an error or \<open>nil\<close>.
\<close>

record 's Locker =
  TryLock :: "'s \<Rightarrow> JobID \<Rightarrow> Duration \<Rightarrow> TargetPtr list \<Rightarrow> nat \<Rightarrow> (string list \<times> string option) \<times> 's"
  Unlock :: "'s \<Rightarrow> JobID \<Rightarrow> TargetPtr list \<Rightarrow> string option \<times> 's"

datatype locker_call =
    TryLockCall JobID Duration "TargetPtr list" nat
  | UnlockCall JobID "TargetPtr list"

text \<open>
  Modelled from the spec: \<open>target.FilterTargets\<close> is declared in the package
  \<open>pkg/target\<close> of the repository, which is not among the source files. The
  specification says of it that the locker's reported identifiers are mapped back to the
  original targets, and that a reported identifier not found among the candidates is an
  error. Each identifier is mapped to the first candidate that has it.
\<close>

fun FilterTargets :: "string list \<Rightarrow> TargetPtr list \<Rightarrow> string + TargetPtr list" where
  "FilterTargets [] targets = Inr []"
| "FilterTargets (targetID # targetIDs) targets =
     (case find (\<lambda>t. ID (deref t) = targetID) targets of
        None \<Rightarrow> Inl targetID
      | Some t \<Rightarrow>
          (case FilterTargets targetIDs targets of
             Inl e \<Rightarrow> Inl e
           | Inr ts \<Rightarrow> Inr (t # ts)))"

subsection \<open>\<open>Acquire\<close>\<close>

record MySQLTargetManager =
  tf_hosts :: "TargetPtr list"

text \<open>
  What a call of \<open>Acquire\<close> that returns leaves behind: the two values it returns (a
  \<open>nil\<close> slice and a \<open>nil\<close> error are \<open>None\<close>), the calls it made to the locker, in
  order, the state of the locker and the receiver.
\<close>

record 's acquire_return =
  ret_targets :: "TargetPtr list option"
  ret_err :: "acquire_error option"
  calls :: "locker_call list"
  locker_after :: 's
  tf_after :: MySQLTargetManager

text \<open>
  When \<open>sql.Open\<close> or \<open>db.Query\<close> fails, \<open>Acquire\<close> logs the error and goes on with a
  \<open>nil\<close> handle, and the next call on it panics: \<open>Acquire\<close> does not return.
\<close>

datatype 's outcome = Panic | Return "'s acquire_return"

text \<open>\<open>return nil, err\<close>.\<close>

definition return_error ::
  "acquire_error \<Rightarrow> locker_call list \<Rightarrow> 's \<Rightarrow> MySQLTargetManager \<Rightarrow> 's outcome" where
  "return_error e cs s tf =
     Return \<lparr>ret_targets = None, ret_err = Some e, calls = cs, locker_after = s, tf_after = tf\<rparr>"

text \<open>
  Lines 188 to 203: what was locked against \<open>MinNumberDevices\<close>. The comparison is
  between values of the type \<open>int\<close>, taken to have 64 bits, so that \<open>int(MinNumberDevices)\<close>
  is the number itself. \<open>lk\<close> is the locker \<open>tl\<close> of the source, \<open>cs\<close> are
  the calls made to it so far and \<open>s\<close> is its state.
\<close>

definition reconcile ::
  "'s Locker \<Rightarrow> 's \<Rightarrow> MySQLTargetManager \<Rightarrow> JobID \<Rightarrow> AcquireParameters \<Rightarrow> locker_call list
     \<Rightarrow> TargetPtr list \<Rightarrow> 's outcome" where
  "reconcile lk s tf jobID ap cs locked =
     (if length locked \<ge> unat (MinNumberDevices ap) then
        Return \<lparr>ret_targets = Some locked, ret_err = None, calls = cs, locker_after = s,
                tf_after = tf\<lparr>tf_hosts := locked\<rparr>\<rparr>
      else if length locked > 0 then
        (case Unlock lk s jobID locked of
           (err, s') \<Rightarrow>
             if err \<noteq> None then return_error CantUnlock (cs @ [UnlockCall jobID locked]) s' tf
             else return_error CantLockEnough (cs @ [UnlockCall jobID locked]) s' tf)
      else return_error CantLockEnough cs s tf)"

text \<open>Lines 171 to 176: the hosts are shuffled when the parameters ask for it.\<close>

definition shuffled :: "(nat \<Rightarrow> nat) \<Rightarrow> AcquireParameters \<Rightarrow> TargetPtr list \<Rightarrow> TargetPtr list" where
  "shuffled draws ap hosts = (if Shuffle ap then rand_Shuffle draws hosts else hosts)"

text \<open>Lines 164 to 186: the count of the hosts, the shuffle, \<open>TryLock\<close> and \<open>FilterTargets\<close>.\<close>

definition lock_hosts ::
  "(nat \<Rightarrow> nat) \<Rightarrow> 's Locker \<Rightarrow> 's \<Rightarrow> MySQLTargetManager \<Rightarrow> JobID \<Rightarrow> Duration
     \<Rightarrow> AcquireParameters \<Rightarrow> TargetPtr list \<Rightarrow> 's outcome" where
  "lock_hosts draws lk s tf jobID timeout ap hosts0 =
     (if (of_nat (length hosts0) :: 32 word) < MinNumberDevices ap then
        return_error (NotEnoughHosts (MinNumberDevices ap) (length hosts0)) [] s tf
      else
        (let hosts = shuffled draws ap hosts0;
             limit = unat (MaxNumberDevices ap);
             cs = [TryLockCall jobID timeout hosts limit] in
         case TryLock lk s jobID timeout hosts limit of
           ((lockedString, err), s') \<Rightarrow>
             (case err of
                Some e \<Rightarrow> return_error (LockFailed e) cs s' tf
              | None \<Rightarrow>
                  (case FilterTargets lockedString hosts of
                     Inl _ \<Rightarrow> return_error LockedNotInHosts cs s' tf
                   | Inr locked \<Rightarrow> reconcile lk s' tf jobID ap cs locked))))"

definition Acquire ::
  "(string \<Rightarrow> IP option) \<Rightarrow> (nat \<Rightarrow> nat) \<Rightarrow> database \<Rightarrow> 's Locker \<Rightarrow> 's \<Rightarrow> MySQLTargetManager
     \<Rightarrow> JobID \<Rightarrow> Duration \<Rightarrow> parameters \<Rightarrow> 's outcome" where
  "Acquire parseIP draws db lk s tf jobID timeout params =
     (case params of
        OtherParams \<Rightarrow> return_error WrongParameterType [] s tf
      | AcquireParams ap \<Rightarrow>
          (case db of
             OpenFailed \<Rightarrow> Panic
           | QueryFailed \<Rightarrow> Panic
           | Table rows \<Rightarrow>
               (case load_hosts parseIP (HostPrefixes ap) rows of
                  Inl e \<Rightarrow> return_error e [] s tf
                | Inr hosts \<Rightarrow> lock_hosts draws lk s tf jobID timeout ap hosts)))"

subsection \<open>Test doubles and sample rows\<close>

text \<open>
  A locker that answers every call with the same values and counts the calls it has
  served: \<open>TryLock\<close> reports the identifiers \<open>ids\<close> and the error \<open>lock_err\<close>, \<open>Unlock\<close>
  returns \<open>unlock_err\<close>.
\<close>

definition scripted_locker :: "string list \<Rightarrow> string option \<Rightarrow> string option \<Rightarrow> nat Locker" where
  "scripted_locker ids lock_err unlock_err =
     \<lparr>TryLock = (\<lambda>s jobID timeout targets limit. ((ids, lock_err), Suc s)),
      Unlock = (\<lambda>s jobID targets. (unlock_err, Suc s))\<rparr>"

definition table_row :: "string \<Rightarrow> string \<Rightarrow> string \<Rightarrow> string \<Rightarrow> mysqltable" where
  "table_row i name v4 v6 =
     \<lparr>row_ID = 0, hostid = i, row_FQDN = name, row_IPv4 = v4, row_IPv6 = v6\<rparr>"

definition row :: "string \<Rightarrow> string \<Rightarrow> string \<Rightarrow> string \<Rightarrow> scan" where
  "row i name v4 v6 = Scanned (table_row i name v4 v6)"

definition host :: "string \<Rightarrow> string \<Rightarrow> Target" where
  "host i name = \<lparr>ID = i, FQDN = name, PrimaryIPv4 = None, PrimaryIPv6 = None\<rparr>"

definition three_rows :: "scan list" where
  "three_rows = [row ''T1'' [] [] [], row ''T2'' [] [] [], row ''T3'' [] [] []]"

definition three_hosts :: "TargetPtr list" where
  "three_hosts = [Ptr 0 (host ''T1'' []), Ptr 1 (host ''T2'' []), Ptr 2 (host ''T3'' [])]"

definition request :: "32 word \<Rightarrow> 32 word \<Rightarrow> string list \<Rightarrow> AcquireParameters" where
  "request lo hi hps =
     \<lparr>MinNumberDevices = lo, MaxNumberDevices = hi, HostPrefixes = hps, Shuffle = False\<rparr>"

text \<open>The receiver as \<open>New\<close> builds it.\<close>

definition new_manager :: MySQLTargetManager where
  "new_manager = \<lparr>tf_hosts = []\<rparr>"

section \<open>Facts about the model\<close>

subsection \<open>Unfolding the definitions on a concrete run\<close>

lemmas run_defs = Acquire_def load_hosts_def row_step_def build_target_def add_host_def all_empty_def
  lock_hosts_def reconcile_def return_error_def scripted_locker_def row_def table_row_def host_def
  three_rows_def three_hosts_def request_def shuffled_def firstComponent_def new_manager_def

lemmas parse_defs = net_ParseIP_def parseIPv4_def IPv4_def v4InV6Prefix_def dtoi_def is_digit_def
  big_def IPv4len_def IPv6len_def To4_def To16_def isZeros_def

subsection \<open>The loop over the rows\<close>

lemma scan_rows_append:
  "scan_rows parseIP hps st (pre @ post) =
     (case scan_rows parseIP hps st pre of
        Inl e \<Rightarrow> Inl e
      | Inr st' \<Rightarrow> scan_rows parseIP hps st' post)"
  by (induction pre arbitrary: st) (auto split: sum.splits)





lemma scan_rows_skip:
  assumes "all_empty data"
  shows "scan_rows parseIP hps st (pre @ Scanned data # post) = scan_rows parseIP hps st (pre @ post)"
  using assms by (simp add: scan_rows_append row_step_def split: sum.splits)

lemma scan_rows_empty_id:
  assumes "hostid data = []" and "\<not> all_empty data"
    and "scan_rows parseIP hps st pre = Inr st'"
  shows "scan_rows parseIP hps st (pre @ Scanned data # post) = Inl EmptyHostID"
  using assms by (simp add: scan_rows_append row_step_def)




subsection \<open>The shuffle\<close>

lemma length_swap [simp]: "length (swap i j xs) = length xs"
  by (simp add: swap_def)

lemma mset_swap_eq:
  assumes "i < length xs" and "j < length xs"
  shows "mset (swap i j xs) = mset xs"
  unfolding swap_def using mset_swap [OF assms(2) assms(1)] .

lemma length_Shuffle_loop [simp]: "length (Shuffle_loop draws k i xs) = length xs"
  by (induction i arbitrary: k xs) auto

lemma mset_Shuffle_loop:
  "i < length xs \<Longrightarrow> mset (Shuffle_loop draws k i xs) = mset xs"
proof (induction i arbitrary: k xs)
  case 0
  then show ?case by simp
next
  case (Suc i)
  have j: "draws k mod Suc (Suc i) < length xs"
    using Suc.prems by (meson Suc_leI le_trans mod_less_divisor not_less zero_less_Suc less_le_trans)
  have "mset (Shuffle_loop draws (Suc k) i (swap (Suc i) (draws k mod Suc (Suc i)) xs))
      = mset (swap (Suc i) (draws k mod Suc (Suc i)) xs)"
    using Suc.prems by (intro Suc.IH) simp
  also have "\<dots> = mset xs"
    using Suc.prems j by (rule mset_swap_eq)
  finally show ?case by simp
qed

lemma mset_rand_Shuffle: "mset (rand_Shuffle draws xs) = mset xs"
  by (cases xs) (simp_all add: rand_Shuffle_def mset_Shuffle_loop)

lemma mset_shuffled: "mset (shuffled draws ap hosts) = mset hosts"
  by (simp add: shuffled_def mset_rand_Shuffle)

lemma set_shuffled: "set (shuffled draws ap hosts) = set hosts"
  using mset_shuffled by (rule mset_eq_setD)


lemma shuffle_example: "rand_Shuffle (\<lambda>k. k + 1) [1, 2, 3, 4, 5 :: nat] = [5, 4, 1, 3, 2]"
  by code_simp

subsection \<open>The occurrences of a target among the hosts\<close>


subsection \<open>The locker and the count of the hosts\<close>

lemma FilterTargets_Inr:
  "FilterTargets ids targets = Inr locked \<Longrightarrow>
     length locked = length ids \<and> set locked \<subseteq> set targets \<and> map (\<lambda>t. ID (deref t)) locked = ids"
proof (induction ids arbitrary: locked)
  case Nil
  then show ?case by simp
next
  case (Cons i ids)
  then show ?case
    by (auto split: option.splits sum.splits simp: find_Some_iff)
qed

lemma preflight:
  assumes "length hosts < unat (lo :: 32 word)"
  shows "(of_nat (length hosts) :: 32 word) < lo"
proof -
  have "unat (of_nat (length hosts) :: 32 word) \<le> length hosts"
    by (simp add: unat_of_nat)
  then show ?thesis
    using assms by (simp add: word_less_nat_alt)
qed


subsection \<open>The address columns\<close>

text \<open>
  The IPv4 column is checked for its family: a text that does not parse, or parses to an
  address \<open>To4\<close> rejects, ends the load. For the IPv6 column the check is \<open>To16\<close>,
  which accepts every address of sixteen bytes, so that every text the parser accepts
  passes.
\<close>

lemma To16_of_sixteen_bytes: "length ip = IPv6len \<Longrightarrow> To16 ip = Some ip"
  by (simp add: To16_def IPv4len_def IPv6len_def)

lemma ipv4_column_checked:
  assumes "hostid data \<noteq> []" and "row_IPv4 data \<noteq> []"
    and "parseIP (row_IPv4 data) = None \<or> (\<exists>ip. parseIP (row_IPv4 data) = Some ip \<and> To4 ip = None)"
  shows "row_step parseIP hps st (Scanned data) = Inl (InvalidIPv4 (row_IPv4 data))"
  using assms by (auto simp: row_step_def all_empty_def build_target_def)

lemma ipv6_column_unparsed:
  assumes "build_target parseIP data = Inr t" and "row_IPv6 data \<noteq> []"
  shows "parseIP (row_IPv6 data) \<noteq> None"
  using assms
  by (auto simp: build_target_def Let_def split: if_splits option.splits sum.splits)

lemma invalid_ipv4_scenario:
  "load_hosts net_ParseIP [] [row ''h1'' [] ''999.999.999.999'' []]
     = Inl (InvalidIPv4 ''999.999.999.999'')"
  by (simp add: run_defs parse_defs)

section \<open>The claims\<close>

subsection \<open>C1: a shortfall after locking\<close>

text \<open>
  C1, as amended. When \<open>TryLock\<close> returns without error and the targets found for its
  identifiers are more than zero and fewer than \<open>MinNumberDevices\<close>, \<open>Acquire\<close> calls
  \<open>Unlock\<close> once, with every one of these targets, and returns a \<open>nil\<close> list and an
  error. The error is "can't lock enough targets" when \<open>Unlock\<close> succeeded; when \<open>Unlock\<close>
  failed it is "can't unlock targets", which takes the place of the quorum error.
\<close>

theorem shortfall_unlocks_then_fails:
  assumes "load_hosts parseIP (HostPrefixes ap) rows = Inr hosts"
    and "\<not> (of_nat (length hosts) :: 32 word) < MinNumberDevices ap"
    and "TryLock lk s jobID timeout (shuffled draws ap hosts) (unat (MaxNumberDevices ap))
           = ((ids, None), s1)"
    and "FilterTargets ids (shuffled draws ap hosts) = Inr locked"
    and "0 < length locked"
    and "length locked < unat (MinNumberDevices ap)"
    and "Unlock lk s1 jobID locked = (uerr, s2)"
  shows "Acquire parseIP draws (Table rows) lk s tf jobID timeout (AcquireParams ap) =
           Return \<lparr>ret_targets = None,
                   ret_err = Some (if uerr = None then CantLockEnough else CantUnlock),
                   calls = [TryLockCall jobID timeout (shuffled draws ap hosts)
                              (unat (MaxNumberDevices ap)),
                            UnlockCall jobID locked],
                   locker_after = s2, tf_after = tf\<rparr>"
  using assms
  by (simp add: Acquire_def lock_hosts_def reconcile_def return_error_def)

text \<open>
  C1, witness: three hosts, two required, the locker grants \<open>T1\<close> and unlocks it
  without error.
\<close>

theorem shortfall_unlocks_then_fails_witness:
  "load_hosts net_ParseIP (HostPrefixes (request 2 3 [])) three_rows = Inr three_hosts
   \<and> \<not> (of_nat (length three_hosts) :: 32 word) < MinNumberDevices (request 2 3 [])
   \<and> TryLock (scripted_locker [''T1''] None None) 0 7 30
        (shuffled (\<lambda>k. 0) (request 2 3 []) three_hosts) (unat (MaxNumberDevices (request 2 3 [])))
       = (([''T1''], None), 1)
   \<and> FilterTargets [''T1''] (shuffled (\<lambda>k. 0) (request 2 3 []) three_hosts)
       = Inr [Ptr 0 (host ''T1'' [])]
   \<and> 0 < length [Ptr 0 (host ''T1'' [])]
   \<and> length [Ptr 0 (host ''T1'' [])] < unat (MinNumberDevices (request 2 3 []))
   \<and> Unlock (scripted_locker [''T1''] None None) 1 7 [Ptr 0 (host ''T1'' [])] = (None, 2)
   \<and> Acquire net_ParseIP (\<lambda>k. 0) (Table three_rows) (scripted_locker [''T1''] None None) 0
        new_manager 7 30 (AcquireParams (request 2 3 [])) =
       Return \<lparr>ret_targets = None, ret_err = Some CantLockEnough,
               calls = [TryLockCall 7 30 three_hosts 3, UnlockCall 7 [Ptr 0 (host ''T1'' [])]],
               locker_after = 2, tf_after = new_manager\<rparr>"
proof -
  have h1: "load_hosts net_ParseIP (HostPrefixes (request 2 3 [])) three_rows = Inr three_hosts"
    by (simp add: run_defs)
  have h2: "\<not> (of_nat (length three_hosts) :: 32 word) < MinNumberDevices (request 2 3 [])"
    by (simp add: run_defs)
  have h3: "TryLock (scripted_locker [''T1''] None None) 0 7 30
        (shuffled (\<lambda>k. 0) (request 2 3 []) three_hosts) (unat (MaxNumberDevices (request 2 3 [])))
       = (([''T1''], None), 1)"
    by (simp add: run_defs)
  have h4: "FilterTargets [''T1''] (shuffled (\<lambda>k. 0) (request 2 3 []) three_hosts)
       = Inr [Ptr 0 (host ''T1'' [])]"
    by (simp add: run_defs)
  have h5: "0 < length [Ptr 0 (host ''T1'' [])]"
    by simp
  have h6: "length [Ptr 0 (host ''T1'' [])] < unat (MinNumberDevices (request 2 3 []))"
    by (simp add: run_defs)
  have h7: "Unlock (scripted_locker [''T1''] None None) 1 7 [Ptr 0 (host ''T1'' [])] = (None, 2)"
    by (simp add: run_defs)
  show ?thesis
    using h1 h2 h3 h4 h5 h6 h7
      shortfall_unlocks_then_fails [OF h1 h2 h3 h4 h5 h6 h7, of new_manager]
    by (simp add: run_defs)
qed

text \<open>
  C1, counterexample to the claim as stated (a failed unlock never replaces the quorum
  error): the same run with a locker whose \<open>Unlock\<close> fails returns "can't unlock targets"
  and no quorum error.
\<close>

theorem unlock_failure_replaces_quorum_error:
  "Acquire net_ParseIP (\<lambda>k. 0) (Table three_rows) (scripted_locker [''T1''] None (Some ''boom'')) 0
     new_manager 7 30 (AcquireParams (request 2 3 [])) =
   Return \<lparr>ret_targets = None, ret_err = Some CantUnlock,
           calls = [TryLockCall 7 30 three_hosts 3, UnlockCall 7 [Ptr 0 (host ''T1'' [])]],
           locker_after = 2, tf_after = new_manager\<rparr>"
  by (simp add: run_defs)

subsection \<open>C2: the list of a successful call\<close>

text \<open>
  C2, as amended. When \<open>Acquire\<close> returns a \<open>nil\<close> error, the parameters were
  \<open>AcquireParameters\<close>, the rows loaded, \<open>TryLock\<close> returned no error, and the list
  returned has at least \<open>MinNumberDevices\<close> elements, each of them one of the loaded
  hosts, and as many elements as \<open>TryLock\<close> reported identifiers. It has at most
  \<open>MaxNumberDevices\<close> elements when the locker reported at most that many identifiers;
  \<open>Acquire\<close> itself does not compare the list with \<open>MaxNumberDevices\<close>.
\<close>

theorem success_bounds:
  assumes "Acquire parseIP draws db lk s tf jobID timeout params = Return r"
    and "ret_err r = None"
  shows "\<exists>ap rows hosts ids s' locked.
           params = AcquireParams ap \<and> db = Table rows
           \<and> load_hosts parseIP (HostPrefixes ap) rows = Inr hosts
           \<and> TryLock lk s jobID timeout (shuffled draws ap hosts) (unat (MaxNumberDevices ap))
               = ((ids, None), s')
           \<and> ret_targets r = Some locked
           \<and> unat (MinNumberDevices ap) \<le> length locked
           \<and> set locked \<subseteq> set hosts
           \<and> length locked = length ids
           \<and> (length ids \<le> unat (MaxNumberDevices ap)
                \<longrightarrow> length locked \<le> unat (MaxNumberDevices ap))"
proof -
  from assms obtain ap rows hosts where
    p: "params = AcquireParams ap" "db = Table rows"
    and l: "load_hosts parseIP (HostPrefixes ap) rows = Inr hosts"
    and run: "lock_hosts draws lk s tf jobID timeout ap hosts = Return r"
    by (auto simp: Acquire_def return_error_def
        split: parameters.splits database.splits sum.splits)
  let ?cands = "shuffled draws ap hosts"
  obtain ids err s' where
    t: "TryLock lk s jobID timeout ?cands (unat (MaxNumberDevices ap)) = ((ids, err), s')"
    by (metis prod.exhaust)
  from run t assms(2) obtain locked where
    e: "err = None" and f: "FilterTargets ids ?cands = Inr locked"
    and rec: "reconcile lk s' tf jobID ap
                [TryLockCall jobID timeout ?cands (unat (MaxNumberDevices ap))] locked = Return r"
    by (auto simp: lock_hosts_def return_error_def Let_def
        split: if_splits option.splits sum.splits)
  from rec assms(2) have res: "ret_targets r = Some locked"
    and lo: "unat (MinNumberDevices ap) \<le> length locked"
    by (auto simp: reconcile_def return_error_def split: if_splits prod.splits)
  from FilterTargets_Inr [OF f] have "length locked = length ids" "set locked \<subseteq> set hosts"
    by (simp_all add: set_shuffled)
  with p l t e res lo show ?thesis
    by auto
qed

text \<open>
  C2, witness: three hosts, exactly two wanted, the locker grants \<open>T3\<close> and \<open>T1\<close>.
\<close>

theorem success_bounds_witness:
  "Acquire net_ParseIP (\<lambda>k. 0) (Table three_rows) (scripted_locker [''T3'', ''T1''] None None) 0
       new_manager 7 30 (AcquireParams (request 2 2 []))
     = Return \<lparr>ret_targets = Some [Ptr 2 (host ''T3'' []), Ptr 0 (host ''T1'' [])], ret_err = None,
               calls = [TryLockCall 7 30 three_hosts 2], locker_after = 1,
               tf_after = \<lparr>tf_hosts = [Ptr 2 (host ''T3'' []), Ptr 0 (host ''T1'' [])]\<rparr>\<rparr>
   \<and> (\<exists>ap rows hosts ids s' locked.
         AcquireParams (request 2 2 []) = AcquireParams ap \<and> Table three_rows = Table rows
         \<and> load_hosts net_ParseIP (HostPrefixes ap) rows = Inr hosts
         \<and> TryLock (scripted_locker [''T3'', ''T1''] None None) 0 7 30
              (shuffled (\<lambda>k. 0) ap hosts) (unat (MaxNumberDevices ap)) = ((ids, None), s')
         \<and> Some [Ptr 2 (host ''T3'' []), Ptr 0 (host ''T1'' [])] = Some locked
         \<and> unat (MinNumberDevices ap) \<le> length locked
         \<and> set locked \<subseteq> set hosts
         \<and> length locked = length ids
         \<and> (length ids \<le> unat (MaxNumberDevices ap)
              \<longrightarrow> length locked \<le> unat (MaxNumberDevices ap)))"
proof -
  let ?r = "\<lparr>ret_targets = Some [Ptr 2 (host ''T3'' []), Ptr 0 (host ''T1'' [])], ret_err = None,
               calls = [TryLockCall 7 30 three_hosts 2], locker_after = 1 :: nat,
               tf_after = \<lparr>tf_hosts = [Ptr 2 (host ''T3'' []), Ptr 0 (host ''T1'' [])]\<rparr>\<rparr>"
  have h1: "Acquire net_ParseIP (\<lambda>k. 0) (Table three_rows) (scripted_locker [''T3'', ''T1''] None None) 0
       new_manager 7 30 (AcquireParams (request 2 2 [])) = Return ?r"
    by (simp add: run_defs)
  have h2: "ret_err ?r = None"
    by simp
  show ?thesis
    using h1 success_bounds [OF h1 h2] by simp
qed

text \<open>
  C2, counterexample to the claim as stated (the list never has more than
  \<open>MaxNumberDevices\<close> elements): with a limit of two, a locker that reports three
  identifiers makes \<open>Acquire\<close> return three targets and no error.
\<close>

theorem locker_may_exceed_max:
  "Acquire net_ParseIP (\<lambda>k. 0) (Table three_rows)
       (scripted_locker [''T1'', ''T2'', ''T3''] None None) 0
       new_manager 7 30 (AcquireParams (request 1 2 []))
     = Return \<lparr>ret_targets = Some three_hosts, ret_err = None,
               calls = [TryLockCall 7 30 three_hosts 2], locker_after = 1,
               tf_after = \<lparr>tf_hosts = three_hosts\<rparr>\<rparr>
   \<and> \<not> length three_hosts \<le> unat (MaxNumberDevices (request 1 2 []))"
  by (simp add: run_defs Let_def)

subsection \<open>C3: too few hosts\<close>

text \<open>
  C3. When the rows load and the hosts are fewer than \<open>MinNumberDevices\<close>, \<open>Acquire\<close>
  returns a \<open>nil\<close> list and the error "not enough hosts" with both counts, and it has
  made no call to the locker: \<open>TryLock\<close> is not invoked and the state of the locker is
  what it was.
\<close>

theorem insufficient_candidates_no_trylock:
  assumes "load_hosts parseIP (HostPrefixes ap) rows = Inr hosts"
    and "length hosts < unat (MinNumberDevices ap)"
  shows "Acquire parseIP draws (Table rows) lk s tf jobID timeout (AcquireParams ap) =
           Return \<lparr>ret_targets = None,
                   ret_err = Some (NotEnoughHosts (MinNumberDevices ap) (length hosts)),
                   calls = [], locker_after = s, tf_after = tf\<rparr>"
  using assms preflight [OF assms(2)]
  by (simp add: Acquire_def lock_hosts_def return_error_def)

text \<open>
  C3, witness: three hosts and four required.
\<close>

theorem insufficient_candidates_no_trylock_witness:
  "load_hosts net_ParseIP (HostPrefixes (request 4 4 [])) three_rows = Inr three_hosts
   \<and> length three_hosts < unat (MinNumberDevices (request 4 4 []))
   \<and> Acquire net_ParseIP (\<lambda>k. 0) (Table three_rows)
        (scripted_locker [''T1'', ''T2'', ''T3''] None None) 0 new_manager 7 30
        (AcquireParams (request 4 4 [])) =
       Return \<lparr>ret_targets = None, ret_err = Some (NotEnoughHosts 4 3), calls = [],
               locker_after = 0, tf_after = new_manager\<rparr>"
proof -
  have h1: "load_hosts net_ParseIP (HostPrefixes (request 4 4 [])) three_rows = Inr three_hosts"
    by (simp add: run_defs)
  have h2: "length three_hosts < unat (MinNumberDevices (request 4 4 []))"
    by (simp add: run_defs)
  show ?thesis
    using h1 h2
      insufficient_candidates_no_trylock [OF h1 h2, of "\<lambda>k. 0"
        "scripted_locker [''T1'', ''T2'', ''T3''] None None" 0 new_manager 7 30]
    by (simp add: request_def three_hosts_def)
qed

subsection \<open>C4: an error of \<open>TryLock\<close>\<close>

text \<open>
  C4, as amended. When \<open>TryLock\<close> returns an error, whatever identifiers it returns
  with it, \<open>Acquire\<close> returns at once a \<open>nil\<close> list and "failed to lock targets"
  wrapping that error: the identifiers are not mapped back, nothing is compared with
  \<open>MinNumberDevices\<close>, and \<open>Unlock\<close> is not called.
\<close>

theorem trylock_error_returns_at_once:
  assumes "load_hosts parseIP (HostPrefixes ap) rows = Inr hosts"
    and "\<not> (of_nat (length hosts) :: 32 word) < MinNumberDevices ap"
    and "TryLock lk s jobID timeout (shuffled draws ap hosts) (unat (MaxNumberDevices ap))
           = ((ids, Some e), s1)"
  shows "Acquire parseIP draws (Table rows) lk s tf jobID timeout (AcquireParams ap) =
           Return \<lparr>ret_targets = None, ret_err = Some (LockFailed e),
                   calls = [TryLockCall jobID timeout (shuffled draws ap hosts)
                              (unat (MaxNumberDevices ap))],
                   locker_after = s1, tf_after = tf\<rparr>"
  using assms
  by (simp add: Acquire_def lock_hosts_def return_error_def)

text \<open>
  C4, witness: the locker reports \<open>T1\<close> and \<open>T2\<close> together with a timeout.
\<close>

theorem trylock_error_returns_at_once_witness:
  "load_hosts net_ParseIP (HostPrefixes (request 1 3 [])) three_rows = Inr three_hosts
   \<and> \<not> (of_nat (length three_hosts) :: 32 word) < MinNumberDevices (request 1 3 [])
   \<and> TryLock (scripted_locker [''T1'', ''T2''] (Some ''context deadline exceeded'') None) 0 7 30
        (shuffled (\<lambda>k. 0) (request 1 3 []) three_hosts) (unat (MaxNumberDevices (request 1 3 [])))
       = (([''T1'', ''T2''], Some ''context deadline exceeded''), 1)
   \<and> Acquire net_ParseIP (\<lambda>k. 0) (Table three_rows)
        (scripted_locker [''T1'', ''T2''] (Some ''context deadline exceeded'') None) 0
        new_manager 7 30 (AcquireParams (request 1 3 [])) =
       Return \<lparr>ret_targets = None, ret_err = Some (LockFailed ''context deadline exceeded''),
               calls = [TryLockCall 7 30 three_hosts 3], locker_after = 1,
               tf_after = new_manager\<rparr>"
proof -
  have h1: "load_hosts net_ParseIP (HostPrefixes (request 1 3 [])) three_rows = Inr three_hosts"
    by (simp add: run_defs)
  have h2: "\<not> (of_nat (length three_hosts) :: 32 word) < MinNumberDevices (request 1 3 [])"
    by (simp add: run_defs)
  have h3: "TryLock (scripted_locker [''T1'', ''T2''] (Some ''context deadline exceeded'') None) 0 7 30
        (shuffled (\<lambda>k. 0) (request 1 3 []) three_hosts) (unat (MaxNumberDevices (request 1 3 [])))
       = (([''T1'', ''T2''], Some ''context deadline exceeded''), 1)"
    by (simp add: run_defs)
  show ?thesis
    using h1 h2 h3 trylock_error_returns_at_once [OF h1 h2 h3, of new_manager]
    by (simp add: run_defs)
qed

text \<open>
  C4, counterexample to the claim as stated (a timeout that comes with locked
  identifiers is still reconciled, and unlocked below the quorum): two hosts are
  required, the locker reports \<open>T1\<close> together with a timeout, and the only call
  \<open>Acquire\<close> makes is \<open>TryLock\<close>; \<open>T1\<close> is not unlocked.
\<close>

theorem timeout_with_partial_lock_not_reconciled:
  "Acquire net_ParseIP (\<lambda>k. 0) (Table three_rows)
       (scripted_locker [''T1''] (Some ''context deadline exceeded'') None) 0
       new_manager 7 30 (AcquireParams (request 2 3 []))
     = Return \<lparr>ret_targets = None, ret_err = Some (LockFailed ''context deadline exceeded''),
               calls = [TryLockCall 7 30 three_hosts 3], locker_after = 1,
               tf_after = new_manager\<rparr>"
  by (simp add: run_defs)

subsection \<open>C5: the family of an address\<close>

text \<open>
  C5. The claim asks that a non-empty IPv6 text parse as an IPv6 address, or the load
  fail. The code at this input: a row whose IPv6 column holds \<open>1.2.3.4\<close> loads without
  error, and the address stored in \<open>PrimaryIPv6\<close> is the IPv4 address 1.2.3.4
  (\<open>To4\<close> of it is not \<open>nil\<close>).
\<close>

theorem ipv6_column_accepts_ipv4_address:
  "load_hosts net_ParseIP [] [row ''h1'' [] [] ''1.2.3.4'']
     = Inr [Ptr 0 \<lparr>ID = ''h1'', FQDN = [], PrimaryIPv4 = None,
                   PrimaryIPv6 = Some [0, 0, 0, 0, 0, 0, 0, 0, 0, 0, 0xff, 0xff, 1, 2, 3, 4]\<rparr>]
   \<and> To4 [0, 0, 0, 0, 0, 0, 0, 0, 0, 0, 0xff, 0xff, 1, 2, 3, 4] = Some [1, 2, 3, 4]"
  by (simp add: run_defs parse_defs)

subsection \<open>C6: empty rows and empty identifiers\<close>

text \<open>
  C6. A row whose four columns are all empty is skipped: the load, and with it
  \<open>Acquire\<close>, gives what it gives without the row, so the row adds no host and causes
  no error. A row whose \<open>hostid\<close> is empty while another column is not, met after rows
  that loaded, ends the load with "invalid empty string for host ID": \<open>Acquire\<close> returns
  a \<open>nil\<close> list and that error, and calls no locker.
\<close>

theorem empty_row_skipped_empty_id_fatal:
  "(all_empty data \<longrightarrow>
      load_hosts parseIP hps (pre @ Scanned data # post) = load_hosts parseIP hps (pre @ post)
      \<and> Acquire parseIP draws (Table (pre @ Scanned data # post)) lk s tf jobID timeout params
          = Acquire parseIP draws (Table (pre @ post)) lk s tf jobID timeout params)
   \<and> (hostid data = [] \<and> \<not> all_empty data \<and> load_hosts parseIP (HostPrefixes ap) pre = Inr hs \<longrightarrow>
        load_hosts parseIP (HostPrefixes ap) (pre @ Scanned data # post) = Inl EmptyHostID
        \<and> Acquire parseIP draws (Table (pre @ Scanned data # post)) lk s tf jobID timeout
            (AcquireParams ap)
          = Return \<lparr>ret_targets = None, ret_err = Some EmptyHostID, calls = [],
                    locker_after = s, tf_after = tf\<rparr>)"
proof -
  have skip: "load_hosts parseIP hps' (pre @ Scanned data # post) = load_hosts parseIP hps' (pre @ post)"
    if "all_empty data" for hps'
    using that by (simp add: load_hosts_def scan_rows_skip)
  have fatal: "load_hosts parseIP (HostPrefixes ap) (pre @ Scanned data # post) = Inl EmptyHostID"
    if "hostid data = []" "\<not> all_empty data" "load_hosts parseIP (HostPrefixes ap) pre = Inr hs"
  proof -
    from that(3) obtain st' where "scan_rows parseIP (HostPrefixes ap) (0, []) pre = Inr st'"
      by (auto simp: load_hosts_def split: sum.splits)
    from scan_rows_empty_id [OF that(1) that(2) this] show ?thesis
      by (simp add: load_hosts_def)
  qed
  show ?thesis
    using skip fatal
    by (auto simp: Acquire_def return_error_def split: parameters.splits)
qed

text \<open>
  C6, witness: between the rows of \<open>T1\<close> and \<open>T2\<close>, first a row of four empty columns,
  then a row with a name and no identifier.
\<close>

theorem empty_row_skipped_empty_id_fatal_witness:
  "all_empty (table_row [] [] [] [])
   \<and> load_hosts net_ParseIP [] ([row ''T1'' [] [] []] @ Scanned (table_row [] [] [] []) # [row ''T2'' [] [] []])
       = load_hosts net_ParseIP [] ([row ''T1'' [] [] []] @ [row ''T2'' [] [] []])
   \<and> load_hosts net_ParseIP [] ([row ''T1'' [] [] []] @ [row ''T2'' [] [] []])
       = Inr [Ptr 0 (host ''T1'' []), Ptr 1 (host ''T2'' [])]
   \<and> hostid (table_row [] ''web01'' [] []) = []
   \<and> \<not> all_empty (table_row [] ''web01'' [] [])
   \<and> load_hosts net_ParseIP (HostPrefixes (request 1 1 [])) [row ''T1'' [] [] []]
       = Inr [Ptr 0 (host ''T1'' [])]
   \<and> load_hosts net_ParseIP (HostPrefixes (request 1 1 []))
        ([row ''T1'' [] [] []] @ Scanned (table_row [] ''web01'' [] []) # [row ''T2'' [] [] []])
       = Inl EmptyHostID
   \<and> Acquire net_ParseIP (\<lambda>k. 0)
        (Table ([row ''T1'' [] [] []] @ Scanned (table_row [] ''web01'' [] []) # [row ''T2'' [] [] []]))
        (scripted_locker [''T1''] None None) 0 new_manager 7 30 (AcquireParams (request 1 1 []))
       = Return \<lparr>ret_targets = None, ret_err = Some EmptyHostID, calls = [],
                 locker_after = 0, tf_after = new_manager\<rparr>"
proof -
  have a: "all_empty (table_row [] [] [] [])"
    by (simp add: run_defs)
  have b: "hostid (table_row [] ''web01'' [] []) = [] \<and> \<not> all_empty (table_row [] ''web01'' [] [])
      \<and> load_hosts net_ParseIP (HostPrefixes (request 1 1 [])) [row ''T1'' [] [] []]
          = Inr [Ptr 0 (host ''T1'' [])]"
    by (simp add: run_defs)
  have c: "load_hosts net_ParseIP [] ([row ''T1'' [] [] []] @ [row ''T2'' [] [] []])
       = Inr [Ptr 0 (host ''T1'' []), Ptr 1 (host ''T2'' [])]"
    by (simp add: run_defs)
  have skip: "load_hosts net_ParseIP []
        ([row ''T1'' [] [] []] @ Scanned (table_row [] [] [] []) # [row ''T2'' [] [] []])
       = load_hosts net_ParseIP [] ([row ''T1'' [] [] []] @ [row ''T2'' [] [] []])"
    using a empty_row_skipped_empty_id_fatal
      [where data = "table_row [] [] [] []" and parseIP = net_ParseIP and hps = "[]"
        and pre = "[row ''T1'' [] [] []]" and post = "[row ''T2'' [] [] []]"
        and ap = "request 1 1 []" and hs = "[]" and params = OtherParams
        and draws = "\<lambda>k. 0" and lk = "scripted_locker [''T1''] None None" and s = 0
        and tf = new_manager and jobID = 7 and timeout = 30]
    by blast
  have fatal: "load_hosts net_ParseIP (HostPrefixes (request 1 1 []))
        ([row ''T1'' [] [] []] @ Scanned (table_row [] ''web01'' [] []) # [row ''T2'' [] [] []])
       = Inl EmptyHostID
   \<and> Acquire net_ParseIP (\<lambda>k. 0)
        (Table ([row ''T1'' [] [] []] @ Scanned (table_row [] ''web01'' [] []) # [row ''T2'' [] [] []]))
        (scripted_locker [''T1''] None None) 0 new_manager 7 30 (AcquireParams (request 1 1 []))
       = Return \<lparr>ret_targets = None, ret_err = Some EmptyHostID, calls = [],
                 locker_after = 0, tf_after = new_manager\<rparr>"
    using b empty_row_skipped_empty_id_fatal
      [where data = "table_row [] ''web01'' [] []" and parseIP = net_ParseIP
        and ap = "request 1 1 []" and pre = "[row ''T1'' [] [] []]"
        and hs = "[Ptr 0 (host ''T1'' [])]" and post = "[row ''T2'' [] [] []]"
        and draws = "\<lambda>k. 0" and lk = "scripted_locker [''T1''] None None" and s = 0
        and tf = new_manager and jobID = 7 and timeout = 30 and hps = "[]" and params = OtherParams]
    by blast
  from a b c skip fatal show ?thesis
    by blast
qed

subsection \<open>C7: the host prefix filter\<close>



subsection \<open>C8: the shuffle is a permutation\<close>

text \<open>
  C8. Whatever the generator draws, the shuffled list has the elements of the list with
  their multiplicities: nothing is added, dropped or duplicated. Sorted by any key the
  two lists are equal. So the hosts handed to \<open>TryLock\<close> are a permutation of the loaded
  hosts, shuffled or not.
\<close>

theorem shuffle_permutation:
  "mset (rand_Shuffle draws S) = mset S
   \<and> sort (map key (rand_Shuffle draws S)) = sort (map (key :: 'a \<Rightarrow> 'b :: linorder) S)
   \<and> mset (shuffled draws ap hosts) = mset hosts"
proof -
  have "mset (map key (rand_Shuffle draws S)) = mset (map key S)"
    by (simp add: mset_rand_Shuffle)
  then have "sort (map key (rand_Shuffle draws S)) = sort (map key S)"
    by (metis mset_sort sorted_sort properties_for_sort)
  then show ?thesis
    by (simp add: mset_rand_Shuffle mset_shuffled)
qed

subsection \<open>C9: one entry for each matching prefix\<close>



subsection \<open>C10: an error comes with a \<open>nil\<close> list\<close>

text \<open>
  C10. Whenever \<open>Acquire\<close> returns an error, the list it returns is \<open>nil\<close>.
\<close>

theorem error_returns_nil:
  assumes "Acquire parseIP draws db lk s tf jobID timeout params = Return r"
    and "ret_err r \<noteq> None"
  shows "ret_targets r = None"
  using assms
  by (auto simp: Acquire_def lock_hosts_def reconcile_def return_error_def Let_def
      split: parameters.splits database.splits sum.splits option.splits prod.splits if_splits)

text \<open>
  C10, witness: the locker reports an identifier that no host has.
\<close>

theorem error_returns_nil_witness:
  "Acquire net_ParseIP (\<lambda>k. 0) (Table three_rows) (scripted_locker [''T9''] None None) 0
       new_manager 7 30 (AcquireParams (request 1 3 []))
     = Return \<lparr>ret_targets = None, ret_err = Some LockedNotInHosts,
               calls = [TryLockCall 7 30 three_hosts 3], locker_after = 1,
               tf_after = new_manager\<rparr>
   \<and> ret_err \<lparr>ret_targets = None, ret_err = Some LockedNotInHosts,
               calls = [TryLockCall 7 30 three_hosts 3], locker_after = 1 :: nat,
               tf_after = new_manager\<rparr> \<noteq> None
   \<and> ret_targets \<lparr>ret_targets = None, ret_err = Some LockedNotInHosts,
               calls = [TryLockCall 7 30 three_hosts 3], locker_after = 1 :: nat,
               tf_after = new_manager\<rparr> = None"
proof -
  let ?r = "\<lparr>ret_targets = None, ret_err = Some LockedNotInHosts,
               calls = [TryLockCall 7 30 three_hosts 3], locker_after = 1 :: nat,
               tf_after = new_manager\<rparr>"
  have h1: "Acquire net_ParseIP (\<lambda>k. 0) (Table three_rows) (scripted_locker [''T9''] None None) 0
       new_manager 7 30 (AcquireParams (request 1 3 [])) = Return ?r"
    by (simp add: run_defs)
  have h2: "ret_err ?r \<noteq> None"
    by simp
  from error_returns_nil [OF h1 h2] h1 h2 show ?thesis
    by blast
qed

end
